theory Spec2Isabelle
  imports Complex_Main
begin

section \<open>The financial health analyzer of app.py\<close>

text \<open>
  Python floats are modelled as exact reals, Python ints as \<open>int\<close>, strings as byte
  strings (UTF-8), insertion-ordered dicts with computed keys as association lists and
  the request record \<open>data\<close> as a record. A division raises \<open>ZeroDivisionError\<close> on a
  zero divisor and a dict lookup raises \<open>KeyError\<close> on an absent key; both are values
  of the error type, so that "does not raise" is a statement about the model.
\<close>

subsection \<open>Errors and arithmetic\<close>

datatype error = ZeroDivisionError | KeyError string

definition py_div :: "real \<Rightarrow> real \<Rightarrow> error + real" where
  "py_div a b = (if b = 0 then Inl ZeroDivisionError else Inr (a / b))"

definition bind_err :: "error + 'a \<Rightarrow> ('a \<Rightarrow> error + 'b) \<Rightarrow> error + 'b" where
  "bind_err r f = (case r of Inl e \<Rightarrow> Inl e | Inr v \<Rightarrow> f v)"

subsection \<open>The input record\<close>

record profile =
  age :: int
  salary :: real
  city_index :: real
  assets :: real
  liabilities :: real
  loans :: int
  emi :: real
  responsibilities :: int
  savings :: real
  credit_score :: int
  investments :: real
  monthly_expenses :: real
  risk_tolerance :: real
  budget :: bool
  insurance :: string
  expense_tracking :: string
  retirement :: bool
  high_risk_percent :: int
  automate :: bool
  defaulted :: bool
  advisor :: bool
  confidence :: int
  review_goals :: bool

text \<open>The documented domain of the numeric fields (section 3 of the specification).\<close>

definition valid_profile :: "profile \<Rightarrow> bool" where
  "valid_profile d \<longleftrightarrow>
     0 \<le> age d \<and> 0 \<le> salary d \<and> 0 \<le> city_index d \<and> 0 \<le> assets d \<and>
     0 \<le> liabilities d \<and> 0 \<le> savings d \<and> 0 \<le> investments d \<and>
     0 \<le> monthly_expenses d \<and> 0 \<le> emi d \<and>
     0 \<le> risk_tolerance d \<and> risk_tolerance d \<le> 1"

subsection \<open>The normalized factors\<close>

definition calculate_age_factor :: "int \<Rightarrow> real" where
  "calculate_age_factor a =
     (if a < 25 then 0.9
      else if a < 35 then 0.8
      else if a < 45 then 0.6
      else if a < 55 then 0.4
      else 0.2)"

definition calculate_income_stability :: "real \<Rightarrow> real \<Rightarrow> error + real" where
  "calculate_income_stability sal ci =
     (if ci = 0 then Inr 0
      else bind_err (py_div sal (ci * 100000))
             (\<lambda>adjusted_income. Inr (min 1 (adjusted_income / 10))))"

definition calculate_net_worth_ratio :: "real \<Rightarrow> real \<Rightarrow> real \<Rightarrow> error + real" where
  "calculate_net_worth_ratio ast liab sal =
     (if sal = 0 then Inr 0
      else bind_err (py_div (ast - liab) sal)
             (\<lambda>net_worth_multiple. Inr (min 1 (max 0 (net_worth_multiple / 5)))))"

definition calculate_debt_burden :: "real \<Rightarrow> real \<Rightarrow> real \<Rightarrow> error + real" where
  "calculate_debt_burden e liab sal =
     (if sal = 0 then Inr 1
      else bind_err (py_div (e + liab * 0.1) sal)
             (\<lambda>total_debt_ratio. Inr (min 1 total_debt_ratio)))"

definition calculate_liquidity_score :: "real \<Rightarrow> real \<Rightarrow> error + real" where
  "calculate_liquidity_score sav mexp =
     (if mexp = 0 then Inr 0.5
      else bind_err (py_div sav mexp)
             (\<lambda>emergency_months.
                if 12 \<le> emergency_months then Inr 1
                else if 6 \<le> emergency_months then Inr 0.8
                else if 3 \<le> emergency_months then Inr 0.6
                else Inr (min 1 (emergency_months / 6))))"

definition calculate_credit_health :: "int \<Rightarrow> bool \<Rightarrow> real" where
  "calculate_credit_health cs dflt =
     (let base_score = (if dflt then 0.3 else 1);
          credit_factor =
            (if 750 \<le> cs then 1
             else if 650 \<le> cs then 0.7
             else if 550 \<le> cs then 0.4
             else 0.1)
      in base_score * credit_factor)"

definition calculate_investment_maturity :: "real \<Rightarrow> real \<Rightarrow> error + real" where
  "calculate_investment_maturity invs ast =
     (if ast = 0 then Inr 0
      else bind_err (py_div invs ast) (\<lambda>investment_ratio. Inr (min 1 investment_ratio)))"

definition calculate_behavioral_score :: "profile \<Rightarrow> real" where
  "calculate_behavioral_score d =
     (let score = (0::int);
          score = (if budget d then score + 1 else score);
          score = (if expense_tracking d \<in> set [''Monthly'', ''Daily''] then score + 1 else score);
          score = (if insurance d \<in> set [''Health'', ''Life'', ''Both''] then score + 1 else score);
          score = (if retirement d then score + 1 else score);
          score = (if automate d then score + 1 else score);
          score = (if \<not> defaulted d then score + 1 else score);
          score = (if 7 \<le> confidence d then score + 1 else score);
          score = (if review_goals d then score + 1 else score)
      in of_int score / 8)"

subsection \<open>The aggregate score and its breakdown\<close>

definition calculate_comprehensive_risk_score ::
  "profile \<Rightarrow> error + (real \<times> (string \<times> real) list)" where
  "calculate_comprehensive_risk_score d =
     (let age_factor = calculate_age_factor (age d) in
      bind_err (calculate_income_stability (salary d) (city_index d)) (\<lambda>income_stability.
      bind_err (calculate_net_worth_ratio (assets d) (liabilities d) (salary d)) (\<lambda>net_worth_ratio.
      bind_err (calculate_debt_burden (emi d) (liabilities d) (salary d)) (\<lambda>debt_burden.
      bind_err (calculate_liquidity_score (savings d) (monthly_expenses d)) (\<lambda>liquidity_score.
      let credit_health = calculate_credit_health (credit_score d) (defaulted d) in
      bind_err (calculate_investment_maturity (investments d) (assets d)) (\<lambda>investment_maturity.
      let behavioral_score = calculate_behavioral_score d;
          risk_score =
            (age_factor * 0.15 +
             income_stability * 0.20 +
             net_worth_ratio * 0.15 +
             (1 - debt_burden) * 0.20 +
             liquidity_score * 0.10 +
             credit_health * 0.10 +
             investment_maturity * 0.05 +
             behavioral_score * 0.05 +
             risk_tolerance d * 0.1) * 100;
          breakdown =
            [(''Age Factor'', age_factor * 100),
             (''Income Stability'', income_stability * 100),
             (''Net Worth Ratio'', net_worth_ratio * 100),
             (''Debt Management'', (1 - debt_burden) * 100),
             (''Liquidity Position'', liquidity_score * 100),
             (''Credit Health'', credit_health * 100),
             (''Investment Maturity'', investment_maturity * 100),
             (''Financial Behavior'', behavioral_score * 100),
             (''Risk Tolerance'', risk_tolerance d * 100)]
      in Inr (max 0 (min 100 risk_score), breakdown)))))))"

subsection \<open>The investor profile bands\<close>

record risk_profile =
  profile_name :: string
  capacity :: string
  description :: string
  allocation :: string
  investment_horizon :: string

definition interpret_risk_profile :: "real \<Rightarrow> risk_profile" where
  "interpret_risk_profile risk_score =
     (if 80 \<le> risk_score then
        \<lparr>profile_name = ''Aggressive Investor'',
         capacity = ''Very High'',
         description = ''Strong financial foundation with high risk-taking ability'',
         allocation = ''Equity: 70-80%, Bonds: 10-15%, Alternatives: 10-15%'',
         investment_horizon = ''15+ years''\<rparr>
      else if 65 \<le> risk_score then
        \<lparr>profile_name = ''Growth Investor'',
         capacity = ''High'',
         description = ''Good financial position suitable for growth-oriented investments'',
         allocation = ''Equity: 60-70%, Bonds: 20-25%, Alternatives: 10-15%'',
         investment_horizon = ''10-15 years''\<rparr>
      else if 45 \<le> risk_score then
        \<lparr>profile_name = ''Balanced Investor'',
         capacity = ''Moderate'',
         description = ''Stable finances with moderate risk appetite'',
         allocation = ''Equity: 40-50%, Bonds: 30-40%, Alternatives: 10-20%'',
         investment_horizon = ''7-10 years''\<rparr>
      else if 25 \<le> risk_score then
        \<lparr>profile_name = ''Conservative Investor'',
         capacity = ''Low'',
         description = ''Limited risk capacity, focus on stability'',
         allocation = ''Equity: 20-30%, Bonds: 50-60%, Cash: 20-30%'',
         investment_horizon = ''3-7 years''\<rparr>
      else
        \<lparr>profile_name = ''Capital Preservation'',
         capacity = ''Very Low'',
         description = ''Priority should be financial stability and emergency planning'',
         allocation = ''Bonds: 40-50%, Cash/FD: 40-50%, Equity: 0-10%'',
         investment_horizon = ''1-3 years''\<rparr>)"

text \<open>The position of a band name in the ascending order of the five bands.\<close>

definition band_rank :: "string \<Rightarrow> nat" where
  "band_rank n =
     (if n = ''Capital Preservation'' then 0
      else if n = ''Conservative Investor'' then 1
      else if n = ''Balanced Investor'' then 2
      else if n = ''Growth Investor'' then 3
      else 4)"

subsection \<open>The derived ratios\<close>

type_synonym ratios = "(string \<times> real) list"

definition lookup :: "(string \<times> 'v) list \<Rightarrow> string \<Rightarrow> error + 'v" where
  "lookup m k = (case map_of m k of None \<Rightarrow> Inl (KeyError k) | Some v \<Rightarrow> Inr v)"

definition calculate_key_ratios :: "profile \<Rightarrow> error + ratios" where
  "calculate_key_ratios d =
     bind_err (if 0 < salary d then py_div (emi d + liabilities d * 0.1) (salary d) else Inr 0)
       (\<lambda>debt_to_income.
     bind_err (if 0 < salary d then py_div (savings d) (salary d) else Inr 0)
       (\<lambda>savings_rate.
     bind_err (if 0 < monthly_expenses d then py_div (savings d) (monthly_expenses d) else Inr 0)
       (\<lambda>emergency_fund_months.
     bind_err (if 0 < salary d then py_div (investments d) (salary d) else Inr 0)
       (\<lambda>investment_rate.
     let net_worth = assets d - liabilities d in
     bind_err (if 0 < assets d then py_div (investments d) (assets d) else Inr 0)
       (\<lambda>asset_utilization.
     bind_err (if 0 < salary d then py_div (monthly_expenses d * 12) (salary d) else Inr 0)
       (\<lambda>expense_ratio.
     Inr [(''debt_to_income'', debt_to_income),
          (''savings_rate'', savings_rate),
          (''emergency_fund_months'', emergency_fund_months),
          (''investment_rate'', investment_rate),
          (''net_worth'', net_worth),
          (''asset_utilization'', asset_utilization),
          (''expense_ratio'', expense_ratio)]))))))"

subsection \<open>Number formatting\<close>

text \<open>
  Python's format specifications \<open>.Nf\<close>, \<open>.N%\<close> and \<open>,.0f\<close> on the exact value:
  the value is rounded to the requested number of decimals, a tie going to the even
  neighbour, and a negative value keeps its sign even when it rounds to zero.
\<close>

definition round_half_even :: "real \<Rightarrow> int" where
  "round_half_even x =
     (let f = \<lfloor>x\<rfloor>; r = x - of_int f
      in if r < 1 / 2 then f else if 1 / 2 < r then f + 1 else if even f then f else f + 1)"

definition digit_char :: "int \<Rightarrow> char" where
  "digit_char k =
     (if k = 0 then CHR ''0'' else if k = 1 then CHR ''1'' else if k = 2 then CHR ''2''
      else if k = 3 then CHR ''3'' else if k = 4 then CHR ''4'' else if k = 5 then CHR ''5''
      else if k = 6 then CHR ''6'' else if k = 7 then CHR ''7'' else if k = 8 then CHR ''8''
      else CHR ''9'')"

function digits_of :: "int \<Rightarrow> string" where
  "digits_of n =
     (if n < 10 then [digit_char n] else digits_of (n div 10) @ [digit_char (n mod 10)])"
  by pat_completeness auto
termination
  by (relation "measure nat") auto

declare digits_of.simps [simp del]

definition str_int :: "int \<Rightarrow> string" where
  "str_int i = (if i < 0 then ''-'' @ digits_of (- i) else digits_of i)"

definition zero_pad :: "nat \<Rightarrow> string \<Rightarrow> string" where
  "zero_pad w s = replicate (w - length s) (CHR ''0'') @ s"

definition fmt_fixed :: "nat \<Rightarrow> real \<Rightarrow> string" where
  "fmt_fixed n x =
     (let m = round_half_even (\<bar>x\<bar> * 10 ^ n)
      in (if x < 0 then ''-'' else '''') @ digits_of (m div 10 ^ n) @
         (if n = 0 then '''' else ''.'' @ zero_pad n (digits_of (m mod 10 ^ n))))"

definition fmt_percent :: "nat \<Rightarrow> real \<Rightarrow> string" where
  "fmt_percent n x = fmt_fixed n (x * 100) @ ''%''"

fun chunk3 :: "string \<Rightarrow> string" where
  "chunk3 (a # b # c # e # rest) = a # b # c # CHR '','' # chunk3 (e # rest)"
| "chunk3 xs = xs"

definition group_thousands :: "string \<Rightarrow> string" where
  "group_thousands s = rev (chunk3 (rev s))"

definition fmt_comma0 :: "real \<Rightarrow> string" where
  "fmt_comma0 x =
     (if x < 0 then ''-'' else '''') @ group_thousands (digits_of (round_half_even \<bar>x\<bar>))"

subsection \<open>Fixed glyphs of the messages, as the bytes of the source literals\<close>

definition icon_siren :: string where
  "icon_siren =
     [CHR 0xEF, CHR 0xA3, CHR 0xBF, CHR 0xC3, CHR 0xBC, CHR 0xC3, CHR 0xB6, CHR 0xC2,
      CHR 0xAE]"

definition icon_card :: string where
  "icon_card =
     [CHR 0xEF, CHR 0xA3, CHR 0xBF, CHR 0xC3, CHR 0xBC, CHR 0xC3, CHR 0xAD, CHR 0xE2,
      CHR 0x89, CHR 0xA5]"

definition icon_money :: string where
  "icon_money =
     [CHR 0xEF, CHR 0xA3, CHR 0xBF, CHR 0xC3, CHR 0xBC, CHR 0xC3, CHR 0xAD, CHR 0xE2,
      CHR 0x88, CHR 0x9E]"

definition icon_chart :: string where
  "icon_chart =
     [CHR 0xEF, CHR 0xA3, CHR 0xBF, CHR 0xC3, CHR 0xBC, CHR 0xC3, CHR 0xAC, CHR 0xC3,
      CHR 0xA0]"

definition icon_shield :: string where
  "icon_shield =
     [CHR 0xEF, CHR 0xA3, CHR 0xBF, CHR 0xC3, CHR 0xBC, CHR 0xC3, CHR 0xB5, CHR 0xC2,
      CHR 0xB0, CHR 0xC3, CHR 0x94, CHR 0xE2, CHR 0x88, CHR 0x8F, CHR 0xC3, CHR 0xA8]"

definition icon_bars :: string where
  "icon_bars =
     [CHR 0xEF, CHR 0xA3, CHR 0xBF, CHR 0xC3, CHR 0xBC, CHR 0xC3, CHR 0xAC, CHR 0xC3,
      CHR 0xA4]"

definition icon_clipboard :: string where
  "icon_clipboard =
     [CHR 0xEF, CHR 0xA3, CHR 0xBF, CHR 0xC3, CHR 0xBC, CHR 0xC3, CHR 0xAC, CHR 0xC3,
      CHR 0xA3]"

definition icon_gear :: string where
  "icon_gear =
     [CHR 0xE2, CHR 0x80, CHR 0x9A, CHR 0xC3, CHR 0xB6, CHR 0xC3, CHR 0xB4, CHR 0xC3,
      CHR 0x94, CHR 0xE2, CHR 0x88, CHR 0x8F, CHR 0xC3, CHR 0xA8]"

definition icon_target :: string where
  "icon_target =
     [CHR 0xEF, CHR 0xA3, CHR 0xBF, CHR 0xC3, CHR 0xBC, CHR 0xC3, CHR 0xA9, CHR 0xC3,
      CHR 0x98]"

definition icon_warning :: string where
  "icon_warning =
     [CHR 0xE2, CHR 0x80, CHR 0x9A, CHR 0xC3, CHR 0xB6, CHR 0xE2, CHR 0x80, CHR 0xA0,
      CHR 0xC3, CHR 0x94, CHR 0xE2, CHR 0x88, CHR 0x8F, CHR 0xC3, CHR 0xA8]"

definition currency_symbol :: string where
  "currency_symbol =
     [CHR 0xE2, CHR 0x80, CHR 0x9A, CHR 0xC3, CHR 0x87, CHR 0xCF, CHR 0x80]"

subsection \<open>Currency\<close>

definition format_currency :: "real \<Rightarrow> string" where
  "format_currency amount =
     (if 10000000 \<le> amount then currency_symbol @ fmt_fixed 2 (amount / 10000000) @ '' Cr''
      else if 100000 \<le> amount then currency_symbol @ fmt_fixed 2 (amount / 100000) @ '' L''
      else currency_symbol @ fmt_comma0 amount)"

subsection \<open>The rule engine\<close>

definition generate_recommendations :: "profile \<Rightarrow> real \<Rightarrow> ratios \<Rightarrow> error + string list" where
  "generate_recommendations d risk_score rts =
     (let recs = [] in
      bind_err (lookup rts ''emergency_fund_months'') (\<lambda>efm.
      let recs = (if efm < 6
                  then recs @ [icon_siren @ '' Build emergency fund: You have '' @ fmt_fixed 1 efm @
                               '' months of expenses. Aim for 6-12 months.'']
                  else recs) in
      bind_err (lookup rts ''debt_to_income'') (\<lambda>dti.
      let recs = (if 0.4 < dti
                  then recs @ [icon_card @ '' Reduce debt burden: '' @ fmt_percent 1 dti @
                               '' debt-to-income is high. Target below 30%.'']
                  else recs) in
      bind_err (lookup rts ''savings_rate'') (\<lambda>sr.
      let recs = (if sr < 0.2
                  then recs @ [icon_money @ '' Increase savings: '' @ fmt_percent 1 sr @
                               '' savings rate is low. Aim for 20%+ of income.'']
                  else recs) in
      bind_err (lookup rts ''investment_rate'') (\<lambda>ir.
      let recs = (if ir < 0.15 \<and> 40 < risk_score
                  then recs @ [icon_chart @ '' Increase investments: Consider systematic investment plans (SIPs) for wealth building.'']
                  else recs);
          recs = (if insurance d = ''None''
                  then recs @ [icon_shield @ '' Get insurance: Health and term life insurance are essential for financial security.'']
                  else recs);
          recs = (if credit_score d < 650
                  then recs @ [icon_bars @ '' Improve credit score: Pay bills on time, reduce credit utilization, check credit report.'']
                  else recs);
          recs = (if \<not> budget d
                  then recs @ [icon_clipboard @ '' Create a budget: Track income and expenses to improve financial control.'']
                  else recs);
          recs = (if \<not> automate d
                  then recs @ [icon_gear @ '' Automate finances: Set up automatic savings and bill payments.'']
                  else recs);
          recs = (if age d < 30 \<and> \<not> retirement d
                  then recs @ [icon_target @ '' Start retirement planning: Time is your biggest advantage for long-term wealth.'']
                  else recs)
      in Inr recs)))))"

definition generate_warnings :: "profile \<Rightarrow> ratios \<Rightarrow> error + string list" where
  "generate_warnings d rts =
     (let warns = [] in
      bind_err (lookup rts ''debt_to_income'') (\<lambda>dti.
      let warns = (if 0.5 < dti
                   then warns @ [icon_warning @ '' CRITICAL: Debt-to-income ratio exceeds 50% - immediate debt restructuring needed'']
                   else warns) in
      bind_err (lookup rts ''emergency_fund_months'') (\<lambda>efm.
      let warns = (if efm < 1
                   then warns @ [icon_warning @ '' HIGH RISK: No emergency fund - vulnerable to financial shocks'']
                   else warns);
          warns = (if credit_score d < 500
                   then warns @ [icon_warning @ '' URGENT: Very poor credit score - will severely limit financial options'']
                   else warns) in
      bind_err (lookup rts ''expense_ratio'') (\<lambda>er.
      let warns = (if 0.9 < er
                   then warns @ [icon_warning @ '' CRITICAL: Expenses consume 90%+ of income - unsustainable lifestyle'']
                   else warns);
          warns = (if defaulted d \<and> 0 < loans d
                   then warns @ [icon_warning @ '' HIGH RISK: Previous defaults with current loans - monitor closely'']
                   else warns)
      in Inr warns))))"

definition generate_action_plan :: "profile \<Rightarrow> ratios \<Rightarrow> real \<Rightarrow> error + string list" where
  "generate_action_plan d rts risk_score =
     (let actions = [] in
      bind_err (lookup rts ''emergency_fund_months'') (\<lambda>efm.
      let actions = (if efm < 3
                     then actions @ [''Open a high-yield savings account and set up automatic transfer for emergency fund'']
                     else actions);
          actions = (if \<not> budget d
                     then actions @ [''Download a budgeting app and track all expenses for 30 days'']
                     else actions);
          actions = (if insurance d = ''None''
                     then actions @ [''Research and compare health insurance plans, get quotes for term life insurance'']
                     else actions);
          actions = (if credit_score d < 650
                     then actions @ [''Obtain free credit report, dispute any errors, and set up payment reminders'']
                     else actions);
          actions = (if \<not> automate d
                     then actions @ [''Set up automatic bill payments and SIP investments'']
                     else actions) in
      bind_err (lookup rts ''debt_to_income'') (\<lambda>dti.
      let actions = (if 0.4 < dti
                     then actions @ [''List all debts, consider debt consolidation options, create repayment plan'']
                     else actions);
          actions = actions @ [''Review and optimize current investment portfolio based on risk profile''];
          actions = actions @ [''Schedule financial goal review and create/update investment strategy'']
      in Inr (take 6 actions))))"

subsection \<open>The report assembler\<close>

text \<open>Python's substring test \<open>needle in haystack\<close>.\<close>

fun starts_with :: "string \<Rightarrow> string \<Rightarrow> bool" where
  "starts_with hay [] = True"
| "starts_with [] (c # cs) = False"
| "starts_with (h # hs) (c # cs) = (h = c \<and> starts_with hs cs)"

fun contains :: "string \<Rightarrow> string \<Rightarrow> bool" where
  "contains [] needle = (needle = [])"
| "contains (h # hs) needle = (starts_with (h # hs) needle \<or> contains hs needle)"

text \<open>A formatted ratio is a display string, or the number passed through as it is.\<close>

datatype ratio_cell = Text string | Number real

definition format_ratio :: "string \<Rightarrow> real \<Rightarrow> ratio_cell" where
  "format_ratio k v =
     (if contains k ''rate'' \<or> contains k ''ratio'' then Text (fmt_percent 1 v)
      else if k = ''emergency_fund_months'' then Text (fmt_fixed 1 v @ '' months'')
      else if contains k ''worth'' then Text (format_currency v)
      else Number v)"

definition formatted_ratios :: "ratios \<Rightarrow> (string \<times> ratio_cell) list" where
  "formatted_ratios rts = map (\<lambda>(k, v). (k, format_ratio k v)) rts"

text \<open>
  The clock reading of \<open>datetime.now()\<close> and its rendering by
  \<open>strftime('%B %d, %Y at %I:%M %p')\<close>.
\<close>

datatype month_of_year =
  January | February | March | April | May | June | July | August | September | October
| November | December

record datetime =
  year :: int
  month :: month_of_year
  day :: int
  hour :: int
  minute :: int

fun month_name :: "month_of_year \<Rightarrow> string" where
  "month_name January = ''January''"
| "month_name February = ''February''"
| "month_name March = ''March''"
| "month_name April = ''April''"
| "month_name May = ''May''"
| "month_name June = ''June''"
| "month_name July = ''July''"
| "month_name August = ''August''"
| "month_name September = ''September''"
| "month_name October = ''October''"
| "month_name November = ''November''"
| "month_name December = ''December''"

definition strftime_report :: "datetime \<Rightarrow> string" where
  "strftime_report t =
     month_name (month t) @ '' '' @ zero_pad 2 (str_int (day t)) @ '', '' @ str_int (year t) @
     '' at '' @ zero_pad 2 (str_int (if hour t mod 12 = 0 then 12 else hour t mod 12)) @ '':'' @
     zero_pad 2 (str_int (minute t)) @ '' '' @ (if hour t < 12 then ''AM'' else ''PM'')"

definition yes_no :: "bool \<Rightarrow> string" where
  "yes_no b = (if b then ''Yes'' else ''No'')"

record report =
  generated_on :: string
  report_age :: int
  risk_assessment :: "(string \<times> string) list"
  score_breakdown :: "(string \<times> string) list"
  financial_snapshot :: "(string \<times> string) list"
  key_financial_ratios :: "(string \<times> ratio_cell) list"
  financial_behavior_analysis :: "(string \<times> string) list"
  urgent_attention_required :: "string list"
  personalized_recommendations :: "string list"
  thirty_day_action_plan :: "string list"

text \<open>
  The analyzer instance with the three attributes its constructor assigns. The methods
  called below neither read nor assign an attribute of \<open>self\<close>, so only the entry
  point takes the instance; it returns it with the result, as a method call leaves it.
  The clock reading of \<open>datetime.now()\<close> is an argument.
\<close>

record analyzer =
  self_report_data :: "(string \<times> string) list"
  self_recommendations :: "string list"
  self_warnings :: "string list"

definition init_analyzer :: analyzer where
  "init_analyzer = \<lparr>self_report_data = [], self_recommendations = [], self_warnings = []\<rparr>"

definition get_full_report_data ::
  "analyzer \<Rightarrow> datetime \<Rightarrow> profile \<Rightarrow> (error + report) \<times> analyzer" where
  "get_full_report_data self now d =
    (bind_err (calculate_comprehensive_risk_score d) (\<lambda>(risk_score, breakdown).
     let rp = interpret_risk_profile risk_score in
     bind_err (calculate_key_ratios d) (\<lambda>rts.
     bind_err (generate_recommendations d risk_score rts) (\<lambda>recs.
     bind_err (generate_warnings d rts) (\<lambda>warns.
     bind_err (generate_action_plan d rts risk_score) (\<lambda>action_items.
     let fr = formatted_ratios rts in
     bind_err (lookup rts ''net_worth'') (\<lambda>net_worth.
     Inr \<lparr>generated_on = strftime_report now,
          report_age = age d,
          risk_assessment =
            [(''overall_risk_score'', fmt_fixed 1 risk_score @ ''/100''),
             (''risk_profile'', profile_name rp),
             (''capacity'', capacity rp),
             (''description'', description rp),
             (''investment_horizon'', investment_horizon rp),
             (''suggested_allocation'', allocation rp)],
          score_breakdown = map (\<lambda>(factor, score). (factor, fmt_fixed 1 score @ ''/100'')) breakdown,
          financial_snapshot =
            [(''annual_income'', format_currency (salary d)),
             (''total_assets'', format_currency (assets d)),
             (''total_liabilities'', format_currency (liabilities d)),
             (''net_worth'', format_currency net_worth),
             (''liquid_savings'', format_currency (savings d)),
             (''investments'', format_currency (investments d))],
          key_financial_ratios = fr,
          financial_behavior_analysis =
            [(''monthly_budgeting'', yes_no (budget d)),
             (''expense_tracking'', expense_tracking d),
             (''insurance_coverage'', insurance d),
             (''retirement_planning'', yes_no (retirement d)),
             (''investment_automation'', yes_no (automate d)),
             (''credit_score'', str_int (credit_score d) @ ''/850''),
             (''financial_confidence'', str_int (confidence d) @ ''/10''),
             (''goal_review_habit'', yes_no (review_goals d)),
             (''financial_advisor'', yes_no (advisor d))],
          urgent_attention_required = warns,
          personalized_recommendations = recs,
          thirty_day_action_plan = action_items\<rparr>)))))),
     self)"

text \<open>The profile of the end-to-end example of the specification.\<close>

definition example_profile :: profile where
  "example_profile =
     \<lparr>age = 28, salary = 1200000, city_index = 1.5, assets = 500000, liabilities = 100000,
      loans = 1, emi = 5000, responsibilities = 1, savings = 200000, credit_score = 720,
      investments = 50000, monthly_expenses = 30000, risk_tolerance = 0.6, budget = True,
      insurance = ''Health'', expense_tracking = ''Monthly'', retirement = False,
      high_risk_percent = 20, automate = True, defaulted = False, advisor = False,
      confidence = 8, review_goals = True\<rparr>"

section \<open>Verified properties\<close>

subsection \<open>The factors in closed form\<close>

lemma income_stability_eq:
  "calculate_income_stability sal ci =
     Inr (if ci = 0 then 0 else min 1 (sal / (ci * 100000) / 10))"
  by (simp add: calculate_income_stability_def py_div_def bind_err_def)

lemma net_worth_ratio_eq:
  "calculate_net_worth_ratio ast liab sal =
     Inr (if sal = 0 then 0 else min 1 (max 0 ((ast - liab) / sal / 5)))"
  by (simp add: calculate_net_worth_ratio_def py_div_def bind_err_def)

lemma debt_burden_eq:
  "calculate_debt_burden e liab sal =
     Inr (if sal = 0 then 1 else min 1 ((e + liab * 0.1) / sal))"
  by (simp add: calculate_debt_burden_def py_div_def bind_err_def)

lemma liquidity_score_eq:
  "calculate_liquidity_score sav mexp =
     Inr (if mexp = 0 then 0.5
          else if 12 \<le> sav / mexp then 1
          else if 6 \<le> sav / mexp then 0.8
          else if 3 \<le> sav / mexp then 0.6
          else min 1 (sav / mexp / 6))"
  by (simp add: calculate_liquidity_score_def py_div_def bind_err_def)

lemma investment_maturity_eq:
  "calculate_investment_maturity invs ast =
     Inr (if ast = 0 then 0 else min 1 (invs / ast))"
  by (simp add: calculate_investment_maturity_def py_div_def bind_err_def)

lemma age_factor_unit: "0 \<le> calculate_age_factor a \<and> calculate_age_factor a \<le> 1"
  by (simp add: calculate_age_factor_def)

lemma credit_health_unit:
  "0 \<le> calculate_credit_health cs dflt \<and> calculate_credit_health cs dflt \<le> 1"
  by (simp add: calculate_credit_health_def Let_def)

lemma behavioral_score_unit:
  "0 \<le> calculate_behavioral_score d \<and> calculate_behavioral_score d \<le> 1"
  by (simp add: calculate_behavioral_score_def Let_def)

lemma income_stability_unit:
  assumes "0 \<le> sal" "0 \<le> ci"
  shows "\<exists>v. calculate_income_stability sal ci = Inr v \<and> 0 \<le> v \<and> v \<le> 1"
  using assms by (simp add: income_stability_eq)

lemma net_worth_ratio_unit:
  "\<exists>v. calculate_net_worth_ratio ast liab sal = Inr v \<and> 0 \<le> v \<and> v \<le> 1"
  by (simp add: net_worth_ratio_eq)

lemma debt_burden_unit:
  assumes "0 \<le> e" "0 \<le> liab" "0 \<le> sal"
  shows "\<exists>v. calculate_debt_burden e liab sal = Inr v \<and> 0 \<le> v \<and> v \<le> 1"
  using assms by (simp add: debt_burden_eq)

lemma liquidity_score_unit:
  assumes "0 \<le> sav" "0 \<le> mexp"
  shows "\<exists>v. calculate_liquidity_score sav mexp = Inr v \<and> 0 \<le> v \<and> v \<le> 1"
  using assms by (simp add: liquidity_score_eq)

lemma investment_maturity_unit:
  assumes "0 \<le> invs" "0 \<le> ast"
  shows "\<exists>v. calculate_investment_maturity invs ast = Inr v \<and> 0 \<le> v \<and> v \<le> 1"
  using assms by (simp add: investment_maturity_eq)

lemma risk_score_of_factors:
  assumes "calculate_income_stability (salary d) (city_index d) = Inr inc"
    and "calculate_net_worth_ratio (assets d) (liabilities d) (salary d) = Inr nw"
    and "calculate_debt_burden (emi d) (liabilities d) (salary d) = Inr db"
    and "calculate_liquidity_score (savings d) (monthly_expenses d) = Inr lq"
    and "calculate_investment_maturity (investments d) (assets d) = Inr im"
  shows "calculate_comprehensive_risk_score d =
       Inr (max 0 (min 100
              ((0.15 * calculate_age_factor (age d) + 0.20 * inc +
                0.15 * nw + 0.20 * (1 - db) + 0.10 * lq +
                0.10 * calculate_credit_health (credit_score d) (defaulted d) +
                0.05 * im + 0.05 * calculate_behavioral_score d +
                0.10 * risk_tolerance d) * 100)),
            [(''Age Factor'', calculate_age_factor (age d) * 100),
             (''Income Stability'', inc * 100),
             (''Net Worth Ratio'', nw * 100),
             (''Debt Management'', (1 - db) * 100),
             (''Liquidity Position'', lq * 100),
             (''Credit Health'', calculate_credit_health (credit_score d) (defaulted d) * 100),
             (''Investment Maturity'', im * 100),
             (''Financial Behavior'', calculate_behavioral_score d * 100),
             (''Risk Tolerance'', risk_tolerance d * 100)])"
  unfolding calculate_comprehensive_risk_score_def Let_def assms bind_err_def sum.case
  by (simp add: mult.commute)

lemma factors_total:
  "\<exists>inc nw db lq im.
     calculate_income_stability (salary d) (city_index d) = Inr inc \<and>
     calculate_net_worth_ratio (assets d) (liabilities d) (salary d) = Inr nw \<and>
     calculate_debt_burden (emi d) (liabilities d) (salary d) = Inr db \<and>
     calculate_liquidity_score (savings d) (monthly_expenses d) = Inr lq \<and>
     calculate_investment_maturity (investments d) (assets d) = Inr im"
  by (intro exI conjI) (rule income_stability_eq net_worth_ratio_eq debt_burden_eq
      liquidity_score_eq investment_maturity_eq)+

lemma risk_score_clamped:
  "\<exists>s b. calculate_comprehensive_risk_score d = Inr (s, b) \<and> 0 \<le> s \<and> s \<le> 100"
proof -
  obtain inc nw db lq im where f:
    "calculate_income_stability (salary d) (city_index d) = Inr inc"
    "calculate_net_worth_ratio (assets d) (liabilities d) (salary d) = Inr nw"
    "calculate_debt_burden (emi d) (liabilities d) (salary d) = Inr db"
    "calculate_liquidity_score (savings d) (monthly_expenses d) = Inr lq"
    "calculate_investment_maturity (investments d) (assets d) = Inr im"
    using factors_total [of d] by blast
  have "0 \<le> max 0 (min 100 x) \<and> max 0 (min 100 x) \<le> (100::real)" for x by simp
  with risk_score_of_factors [OF f] show ?thesis by blast
qed

lemma example_valid: "valid_profile example_profile"
  by (simp add: valid_profile_def example_profile_def)

subsection \<open>Ranges\<close>

text \<open>
  C1: for every profile whose numeric fields lie in their documented domains, each of the
  eight factor functions returns (without raising) a value in [0,1], and the aggregate
  score returned by \<open>calculate_comprehensive_risk_score\<close> lies in [0,100].
\<close>

theorem factors_and_score_in_range:
  assumes "valid_profile d"
  shows "(0 \<le> calculate_age_factor (age d) \<and> calculate_age_factor (age d) \<le> 1) \<and>
         (\<exists>v. calculate_income_stability (salary d) (city_index d) = Inr v \<and> 0 \<le> v \<and> v \<le> 1) \<and>
         (\<exists>v. calculate_net_worth_ratio (assets d) (liabilities d) (salary d) = Inr v \<and>
              0 \<le> v \<and> v \<le> 1) \<and>
         (\<exists>v. calculate_debt_burden (emi d) (liabilities d) (salary d) = Inr v \<and>
              0 \<le> v \<and> v \<le> 1) \<and>
         (\<exists>v. calculate_liquidity_score (savings d) (monthly_expenses d) = Inr v \<and>
              0 \<le> v \<and> v \<le> 1) \<and>
         (0 \<le> calculate_credit_health (credit_score d) (defaulted d) \<and>
          calculate_credit_health (credit_score d) (defaulted d) \<le> 1) \<and>
         (\<exists>v. calculate_investment_maturity (investments d) (assets d) = Inr v \<and>
              0 \<le> v \<and> v \<le> 1) \<and>
         (0 \<le> calculate_behavioral_score d \<and> calculate_behavioral_score d \<le> 1) \<and>
         (\<exists>s b. calculate_comprehensive_risk_score d = Inr (s, b) \<and> 0 \<le> s \<and> s \<le> 100)"
proof -
  from assms have nn: "0 \<le> salary d" "0 \<le> city_index d" "0 \<le> assets d" "0 \<le> liabilities d"
    "0 \<le> savings d" "0 \<le> investments d" "0 \<le> monthly_expenses d" "0 \<le> emi d"
    by (simp_all add: valid_profile_def)
  show ?thesis
    using age_factor_unit [of "age d"] income_stability_unit [OF nn(1) nn(2)]
      net_worth_ratio_unit [of "assets d" "liabilities d" "salary d"]
      debt_burden_unit [OF nn(8) nn(4) nn(1)] liquidity_score_unit [OF nn(5) nn(7)]
      credit_health_unit [of "credit_score d" "defaulted d"]
      investment_maturity_unit [OF nn(6) nn(3)] behavioral_score_unit [of d]
      risk_score_clamped [of d]
    by blast
qed

theorem factors_and_score_in_range_witness:
  "valid_profile example_profile \<and>
   (\<exists>v. calculate_income_stability (salary example_profile) (city_index example_profile) = Inr v \<and>
        0 \<le> v \<and> v \<le> 1) \<and>
   (\<exists>s b. calculate_comprehensive_risk_score example_profile = Inr (s, b) \<and> 0 \<le> s \<and> s \<le> 100)"
  using factors_and_score_in_range [OF example_valid] example_valid by blast

subsection \<open>The weighted sum\<close>

text \<open>
  C2: for every profile the aggregate is the clamp to [0,100] of 100 times the weighted
  sum (0.15 age, 0.20 income stability, 0.15 net worth, 0.20 on one minus the debt burden,
  0.10 liquidity, 0.10 credit health, 0.05 investment maturity, 0.05 behaviour, 0.10 risk
  tolerance), and the breakdown reports each factor times 100 before weighting, with
  "Debt Management" equal to (1 - debt burden) times 100.
\<close>

theorem risk_score_formula:
  "\<exists>income_stability net_worth_ratio debt_burden liquidity_score investment_maturity.
     calculate_income_stability (salary d) (city_index d) = Inr income_stability \<and>
     calculate_net_worth_ratio (assets d) (liabilities d) (salary d) = Inr net_worth_ratio \<and>
     calculate_debt_burden (emi d) (liabilities d) (salary d) = Inr debt_burden \<and>
     calculate_liquidity_score (savings d) (monthly_expenses d) = Inr liquidity_score \<and>
     calculate_investment_maturity (investments d) (assets d) = Inr investment_maturity \<and>
     calculate_comprehensive_risk_score d =
       Inr (max 0 (min 100
              ((0.15 * calculate_age_factor (age d) + 0.20 * income_stability +
                0.15 * net_worth_ratio + 0.20 * (1 - debt_burden) + 0.10 * liquidity_score +
                0.10 * calculate_credit_health (credit_score d) (defaulted d) +
                0.05 * investment_maturity + 0.05 * calculate_behavioral_score d +
                0.10 * risk_tolerance d) * 100)),
            [(''Age Factor'', calculate_age_factor (age d) * 100),
             (''Income Stability'', income_stability * 100),
             (''Net Worth Ratio'', net_worth_ratio * 100),
             (''Debt Management'', (1 - debt_burden) * 100),
             (''Liquidity Position'', liquidity_score * 100),
             (''Credit Health'', calculate_credit_health (credit_score d) (defaulted d) * 100),
             (''Investment Maturity'', investment_maturity * 100),
             (''Financial Behavior'', calculate_behavioral_score d * 100),
             (''Risk Tolerance'', risk_tolerance d * 100)])"
proof -
  obtain inc nw db lq im where f:
    "calculate_income_stability (salary d) (city_index d) = Inr inc"
    "calculate_net_worth_ratio (assets d) (liabilities d) (salary d) = Inr nw"
    "calculate_debt_burden (emi d) (liabilities d) (salary d) = Inr db"
    "calculate_liquidity_score (savings d) (monthly_expenses d) = Inr lq"
    "calculate_investment_maturity (investments d) (assets d) = Inr im"
    using factors_total [of d] by blast
  from risk_score_of_factors [OF f] f show ?thesis by blast
qed


subsection \<open>Age factor\<close>

text \<open>
  C5: the age factor is a step function with the exact breakpoints 25, 35, 45 and 55
  (0.9, 0.8, 0.6, 0.4, 0.2), and it is non-increasing in the age.
\<close>

theorem age_factor_steps_antimono:
  "calculate_age_factor a =
     (if a < 25 then 0.9 else if a < 35 then 0.8 else if a < 45 then 0.6
      else if a < 55 then 0.4 else 0.2)
   \<and> (a1 \<le> a2 \<longrightarrow> calculate_age_factor a2 \<le> calculate_age_factor a1)"
  by (simp add: calculate_age_factor_def)

theorem age_factor_steps_antimono_witness:
  "calculate_age_factor 24 = 0.9 \<and> calculate_age_factor 25 = 0.8 \<and>
   ((24::int) \<le> 25 \<and> calculate_age_factor 25 \<le> calculate_age_factor 24)"
  using age_factor_steps_antimono [of 24 24 25] age_factor_steps_antimono [of 25 24 25]
  by simp

end
